theory Spec2Isabelle
  imports Main
begin

section \<open>Data model (models.py)\<close>

text \<open>
  The two tables of \<^verbatim>\<open>models.py\<close>. A \<^verbatim>\<open>DateTime\<close> is a point on an abstract clock
  (a natural number); a nullable column is an \<open>option\<close>. The column \<^verbatim>\<open>status\<close> is a
  \<^verbatim>\<open>String(20)\<close> in the source, so it stays a string here: the values the handlers write
  are \<open>''pending''\<close>, \<open>''approved''\<close> and \<open>''rejected''\<close>. The primary keys are called
  \<open>a_id\<close> and \<open>f_id\<close> (\<open>id\<close> is the identity function of HOL), and the status column of
  \<^verbatim>\<open>Agent\<close> is \<open>agent_status\<close>.
\<close>

type_synonym datetime = nat

record Agent =
  a_id :: int
  ip :: string
  agent_status :: string
  last_seen :: "datetime option"

record FileLog =
  f_id :: int
  filename :: string
  path :: string
  agent_id :: int
  status :: string
  created_at :: "datetime option"
  approved_at :: "datetime option"

text \<open>
  The store behind \<^verbatim>\<open>db\<close>: the rows of each table, in row order.
\<close>

record database =
  agents :: "Agent list"
  files :: "FileLog list"

section \<open>Requests and responses\<close>

text \<open>
  \<^verbatim>\<open>request.get_json()\<close> of the two POST routes: \<open>None\<close> is a body that Python takes as
  false (\<^verbatim>\<open>not data\<close>), \<open>Some d\<close> a JSON object read as a dictionary. The value stored
  under a key is either a list of integer ids (\<open>JIds\<close>) or something that is not a list
  (\<open>JOther\<close>); lists with elements that are not integers are outside this model, as
  \<^verbatim>\<open>FileLog.id\<close> is an integer column.
\<close>

datatype jvalue = JIds "int list" | JOther

type_synonym body = "(string \<rightharpoonup> jvalue) option"

text \<open>
  \<^verbatim>\<open>jsonify({key: text}), code\<close>: the single field of the JSON answer and the HTTP status
  (200 where the source gives none).
\<close>

datatype reply = Reply (field: string) (text_of: string) (http_status: nat)

text \<open>
  One entry of the list that \<^verbatim>\<open>files_preview\<close> answers with. \<^verbatim>\<open>created_at\<close> is kept as the
  time itself, not as its ISO rendering.
\<close>

record file_view =
  v_id :: int
  v_filename :: string
  v_path :: string
  v_agent_ip :: string
  v_status :: string
  v_created_at :: "datetime option"

section \<open>Python helpers\<close>

text \<open>
  \<^verbatim>\<open>str(n)\<close> for a length, as the f-strings of the handlers render it.
\<close>

definition digit :: "nat \<Rightarrow> char" where
  "digit d = ''0123456789'' ! d"

function str :: "nat \<Rightarrow> string" where
  "str n = (if n < 10 then [digit n] else str (n div 10) @ [digit (n mod 10)])"
  by pat_completeness auto
termination
  by (relation "measure (\<lambda>n. n)") auto

declare str.simps [simp del]

text \<open>
  \<^verbatim>\<open>str.strip()\<close> without arguments removes leading and trailing whitespace. The
  characters of \<open>string\<close> are the code points below 256; among them Python counts these
  as whitespace: 9 to 13, 28 to 32, 133 and 160.
\<close>

definition isspace :: "char \<Rightarrow> bool" where
  "isspace c = ((of_char c :: nat) \<in> set [9, 10, 11, 12, 13, 28, 29, 30, 31, 32, 133, 160])"

definition strip :: "string \<Rightarrow> string" where
  "strip s = rev (dropWhile isspace (rev (dropWhile isspace s)))"

section \<open>Queries\<close>

text \<open>
  \<^verbatim>\<open>Query.filter(cond).update(values)\<close> is one SQL \<^verbatim>\<open>UPDATE ... WHERE cond\<close>: every row
  that satisfies the condition gets the new values, every other row stays as it is.
\<close>

text \<open>
  The ids of a request are bound as parameters of the statement. The store holds signed
  64-bit integers; binding a Python integer outside that range raises in the driver.
\<close>

definition int64 :: "int \<Rightarrow> bool" where
  "int64 i = (- (2 ^ 63) \<le> i \<and> i < 2 ^ 63)"

definition update_where :: "(FileLog \<Rightarrow> bool) \<Rightarrow> (FileLog \<Rightarrow> FileLog) \<Rightarrow> FileLog list \<Rightarrow> FileLog list" where
  "update_where cond values rows = map (\<lambda>f. if cond f then values f else f) rows"

text \<open>
  The relationship \<^verbatim>\<open>FileLog.agent\<close>: the agent whose primary key is the row's
  \<^verbatim>\<open>agent_id\<close>, or \<^verbatim>\<open>None\<close>.
\<close>

definition agent_of :: "database \<Rightarrow> FileLog \<Rightarrow> Agent option" where
  "agent_of db f = find (\<lambda>a. a_id a = agent_id f) (agents db)"

section \<open>The handlers (app.py)\<close>

text \<open>
  \<^verbatim>\<open>approve_deletion\<close>, with the clock reading \<^verbatim>\<open>datetime.utcnow()\<close> as the argument
  \<open>now\<close>. The result is the store after the call and the answer. The \<^verbatim>\<open>except\<close>
  branch (lines 134 to 137) is taken when the update raises, which it does for a list
  that holds an id outside the signed 64-bit range: the session is rolled back, so no
  row changes, and the answer is a 500. Other faults of the store are not modelled.
\<close>

definition approve_deletion :: "datetime \<Rightarrow> body \<Rightarrow> database \<Rightarrow> database \<times> reply" where
  "approve_deletion now data db =
     (case data of
        None \<Rightarrow> (db, Reply ''error'' ''Invalid request data'' 400)
      | Some d \<Rightarrow>
         (case d ''file_ids'' of
            None \<Rightarrow> (db, Reply ''error'' ''Invalid request data'' 400)
          | Some JOther \<Rightarrow> (db, Reply ''error'' ''file_ids must be a non-empty list'' 400)
          | Some (JIds file_ids) \<Rightarrow>
              if file_ids = [] then (db, Reply ''error'' ''file_ids must be a non-empty list'' 400)
              else if \<not> list_all int64 file_ids then
                (db, Reply ''error'' ''Internal server error'' 500)
              else
                (db\<lparr>files := update_where (\<lambda>f. f_id f \<in> set file_ids)
                                (\<lambda>f. f\<lparr>status := ''approved'', approved_at := Some now\<rparr>) (files db)\<rparr>,
                 Reply ''message'' (str (length file_ids) @ '' files approved for deletion'') 200)))"

text \<open>
  \<^verbatim>\<open>reject_deletion\<close>: the same checks and the same \<^verbatim>\<open>except\<close> branch (lines 156 to
  159), and an update of \<^verbatim>\<open>status\<close> alone.
\<close>

definition reject_deletion :: "body \<Rightarrow> database \<Rightarrow> database \<times> reply" where
  "reject_deletion data db =
     (case data of
        None \<Rightarrow> (db, Reply ''error'' ''Invalid request data'' 400)
      | Some d \<Rightarrow>
         (case d ''file_ids'' of
            None \<Rightarrow> (db, Reply ''error'' ''Invalid request data'' 400)
          | Some JOther \<Rightarrow> (db, Reply ''error'' ''file_ids must be a non-empty list'' 400)
          | Some (JIds file_ids) \<Rightarrow>
              if file_ids = [] then (db, Reply ''error'' ''file_ids must be a non-empty list'' 400)
              else if \<not> list_all int64 file_ids then
                (db, Reply ''error'' ''Internal server error'' 500)
              else
                (db\<lparr>files := update_where (\<lambda>f. f_id f \<in> set file_ids)
                                (\<lambda>f. f\<lparr>status := ''rejected''\<rparr>) (files db)\<rparr>,
                 Reply ''message'' (str (length file_ids) @ '' files rejected for deletion'') 200)))"

text \<open>
  \<^verbatim>\<open>files_preview\<close>. \<open>search_arg\<close> is the query parameter \<^verbatim>\<open>search\<close>, \<open>None\<close> when the
  request has none (\<^verbatim>\<open>args.get\<close> then gives the empty string). The test \<^verbatim>\<open>column.contains(search)\<close> is
  evaluated by the store, so the handler takes the operator as the parameter \<open>contains\<close>,
  applied to the column value and the search text; \<open>contains_sql\<close> below is the operator
  of the store this application is configured with.
  Building the list reads \<^verbatim>\<open>f.agent.ip\<close>; for a row whose agent is missing this raises,
  and the handler answers 500.
\<close>

definition file_view_of :: "database \<Rightarrow> FileLog \<Rightarrow> file_view option" where
  "file_view_of db f =
     (case agent_of db f of
        None \<Rightarrow> None
      | Some a \<Rightarrow> Some \<lparr>v_id = f_id f, v_filename = filename f, v_path = path f,
                        v_agent_ip = ip a, v_status = status f, v_created_at = created_at f\<rparr>)"

fun file_list :: "database \<Rightarrow> FileLog list \<Rightarrow> file_view list option" where
  "file_list db [] = Some []"
| "file_list db (f # fs) =
     (case file_view_of db f of
        None \<Rightarrow> None
      | Some v \<Rightarrow> (case file_list db fs of None \<Rightarrow> None | Some vs \<Rightarrow> Some (v # vs)))"

definition files_preview ::
  "(string \<Rightarrow> string \<Rightarrow> bool) \<Rightarrow> string option \<Rightarrow> database \<Rightarrow> reply + file_view list" where
  "files_preview contains search_arg db =
     (let search = strip (case search_arg of None \<Rightarrow> [] | Some s \<Rightarrow> s);
          query = filter (\<lambda>f. status f = ''pending'') (files db);
          query = (if search \<noteq> [] then
                     filter (\<lambda>f. contains (filename f) search \<or> contains (path f) search) query
                   else query)
      in case file_list db query of
           None \<Rightarrow> Inl (Reply ''error'' ''Internal server error'' 500)
         | Some vs \<Rightarrow> Inr vs)"






section \<open>Creating file rows\<close>

text \<open>
  The source creates a file row in one place only (\<^verbatim>\<open>app.py\<close>, lines 38 to 49):
  \<^verbatim>\<open>FileLog(filename=..., path=..., agent_id=..., status='pending')\<close>, then
  \<^verbatim>\<open>db.session.add_all\<close> and \<^verbatim>\<open>commit\<close> inside \<^verbatim>\<open>try\<close>; on an exception the session is
  rolled back and the error is logged. \<open>add_file\<close> is that sequence for a single row.
  An argument that is left out is \<open>None\<close>. What the store checks at the commit is what
  \<^verbatim>\<open>models.py\<close> declares: \<^verbatim>\<open>nullable=False\<close> on \<^verbatim>\<open>filename\<close>, \<^verbatim>\<open>path\<close> and
  \<^verbatim>\<open>agent_id\<close>, and the foreign key of \<^verbatim>\<open>agent_id\<close>. Whether a store enforces a declared
  foreign key is a setting of the store, so it is the parameter \<open>foreign_keys\<close>; the
  application sets nothing, which for SQLite is \<open>False\<close>. The new primary key is one
  more than the largest key of the table, as long as that key is below the largest 64-bit
  integer; \<^verbatim>\<open>created_at\<close> takes its default, the clock reading \<open>now\<close>, and
  \<^verbatim>\<open>approved_at\<close> stays null.
\<close>

datatype store_error = IntegrityError

definition next_id :: "FileLog list \<Rightarrow> int" where
  "next_id rows = (case map f_id rows of [] \<Rightarrow> 1 | i # js \<Rightarrow> fold max js i + 1)"

definition add_file ::
  "bool \<Rightarrow> datetime \<Rightarrow> string option \<Rightarrow> string option \<Rightarrow> int option \<Rightarrow> database
     \<Rightarrow> database \<times> store_error option" where
  "add_file foreign_keys now fname fpath aid db =
     (case fname of
        None \<Rightarrow> (db, Some IntegrityError)
      | Some n \<Rightarrow>
         (case fpath of
            None \<Rightarrow> (db, Some IntegrityError)
          | Some p \<Rightarrow>
             (case aid of
                None \<Rightarrow> (db, Some IntegrityError)
              | Some a \<Rightarrow>
                  if foreign_keys \<and> a \<notin> set (map a_id (agents db)) then (db, Some IntegrityError)
                  else
                    (db\<lparr>files := files db @
                          [\<lparr>f_id = next_id (files db), filename = n, path = p, agent_id = a,
                            status = ''pending'', created_at = Some now, approved_at = None\<rparr>]\<rparr>,
                     None))))"

text \<open>
  The rows that \<^verbatim>\<open>generate_mock_data\<close> seeds (\<^verbatim>\<open>app.py\<close>, lines 25 to 43), with every
  clock reading of the seeding taken as \<open>t\<close>. It is the store of the examples below.
\<close>

definition mock_db :: "datetime \<Rightarrow> database" where
  "mock_db t =
     \<lparr>agents =
        [\<lparr>a_id = 1, ip = ''192.168.1.10'', agent_status = ''online'', last_seen = Some t\<rparr>,
         \<lparr>a_id = 2, ip = ''192.168.1.11'', agent_status = ''online'', last_seen = Some t\<rparr>,
         \<lparr>a_id = 3, ip = ''192.168.1.12'', agent_status = ''offline'', last_seen = Some t\<rparr>],
      files =
        [\<lparr>f_id = 1, filename = ''matlab_script.m'', path = ''/home/user/documents/matlab_script.m'',
          agent_id = 1, status = ''pending'', created_at = Some t, approved_at = None\<rparr>,
         \<lparr>f_id = 2, filename = ''data.mat'', path = ''/home/user/data/data.mat'',
          agent_id = 1, status = ''pending'', created_at = Some t, approved_at = None\<rparr>,
         \<lparr>f_id = 3, filename = ''report.pdf'', path = ''/home/user/reports/report.pdf'',
          agent_id = 2, status = ''pending'', created_at = Some t, approved_at = None\<rparr>,
         \<lparr>f_id = 4, filename = ''temp.txt'', path = ''/tmp/temp.txt'',
          agent_id = 2, status = ''pending'', created_at = Some t, approved_at = None\<rparr>]\<rparr>"

section \<open>Sequences of calls\<close>

text \<open>
  The request body \<^verbatim>\<open>{"file_ids": ids}\<close>, and the ids a body names: those of its list
  when \<^verbatim>\<open>file_ids\<close> is a list, none otherwise.
\<close>

definition ids_body :: "int list \<Rightarrow> body" where
  "ids_body ids = Some [''file_ids'' \<mapsto> JIds ids]"

definition body_ids :: "body \<Rightarrow> int list" where
  "body_ids data =
     (case data of
        None \<Rightarrow> []
      | Some d \<Rightarrow> (case d ''file_ids'' of Some (JIds ids) \<Rightarrow> ids | _ \<Rightarrow> []))"

text \<open>
  The ids that reach the update of a call: those the body names, when each of them can
  be bound; none when one of them cannot, as the call is then rolled back.
\<close>

definition bound_ids :: "body \<Rightarrow> int list" where
  "bound_ids data = (if list_all int64 (body_ids data) then body_ids data else [])"

text \<open>
  A history of the two POST routes: each call is an approval, with its clock reading,
  or a rejection; \<open>run\<close> applies the calls in order to the store.
\<close>

datatype call = Approve datetime body | Reject body

fun step :: "call \<Rightarrow> database \<Rightarrow> database" where
  "step (Approve now data) db = fst (approve_deletion now data db)"
| "step (Reject data) db = fst (reject_deletion data db)"

fun call_ids :: "call \<Rightarrow> int list" where
  "call_ids (Approve now data) = body_ids data"
| "call_ids (Reject data) = body_ids data"

definition run :: "call list \<Rightarrow> database \<Rightarrow> database" where
  "run calls db = fold step calls db"

text \<open>
  The two directions of the link between \<^verbatim>\<open>status\<close> and \<^verbatim>\<open>approved_at\<close>, as properties
  of a store: every approved row carries an approval time, and every row that carries
  one is approved.
\<close>

definition approved_have_time :: "database \<Rightarrow> bool" where
  "approved_have_time db = (\<forall>f \<in> set (files db). status f = ''approved'' \<longrightarrow> approved_at f \<noteq> None)"

definition timed_are_approved :: "database \<Rightarrow> bool" where
  "timed_are_approved db = (\<forall>f \<in> set (files db). approved_at f \<noteq> None \<longrightarrow> status f = ''approved'')"

text \<open>
  Modelled from the spec: the test that the spec describes for a search text, which the
  source leaves to the store. The spec reads it as a case-sensitive substring test:
  \<open>substring t s\<close> holds when \<open>s\<close> occurs in \<open>t\<close>. The examples for \<open>files_preview\<close>
  compare the handler with this reading.
\<close>

fun substring :: "string \<Rightarrow> string \<Rightarrow> bool" where
  "substring [] s = (s = [])"
| "substring (c # cs) s = (take (length s) (c # cs) = s \<or> substring cs s)"

section \<open>Facts about the updates\<close>

lemma files_approve:
  "files (fst (approve_deletion now data db)) =
     update_where (\<lambda>f. f_id f \<in> set (bound_ids data))
       (\<lambda>f. f\<lparr>status := ''approved'', approved_at := Some now\<rparr>) (files db)"
  by (simp add: approve_deletion_def body_ids_def bound_ids_def update_where_def
      split: option.splits jvalue.splits)

lemma files_reject:
  "files (fst (reject_deletion data db)) =
     update_where (\<lambda>f. f_id f \<in> set (bound_ids data)) (\<lambda>f. f\<lparr>status := ''rejected''\<rparr>) (files db)"
  by (simp add: reject_deletion_def body_ids_def bound_ids_def update_where_def
      split: option.splits jvalue.splits)

lemma bound_ids_subset: "i \<in> set (bound_ids data) \<Longrightarrow> i \<in> set (body_ids data)"
  by (simp add: bound_ids_def split: if_splits)

lemma bound_ids_in_range: "list_all int64 (body_ids data) \<Longrightarrow> bound_ids data = body_ids data"
  by (simp add: bound_ids_def)

lemma bound_ids_out_of_range: "\<not> list_all int64 (body_ids data) \<Longrightarrow> bound_ids data = []"
  by (simp add: bound_ids_def)


lemma agents_reject: "agents (fst (reject_deletion data db)) = agents db"
  by (simp add: reject_deletion_def split: option.splits jvalue.splits)

lemma length_update_where: "length (update_where c v rows) = length rows"
  by (simp add: update_where_def)

lemma nth_update_where:
  "i < length rows \<Longrightarrow>
     update_where c v rows ! i = (if c (rows ! i) then v (rows ! i) else rows ! i)"
  by (simp add: update_where_def)

lemma body_ids_list: "d ''file_ids'' = Some (JIds ids) \<Longrightarrow> body_ids (Some d) = ids"
  by (simp add: body_ids_def)

lemma body_ids_ids_body: "body_ids (ids_body ids) = ids"
  by (simp add: body_ids_def ids_body_def)


lemma step_files:
  "length (files (step c db)) = length (files db)
   \<and> (\<forall>i < length (files db).
        f_id (files (step c db) ! i) = f_id (files db ! i)
        \<and> (status (files db ! i) \<noteq> ''pending'' \<longrightarrow> status (files (step c db) ! i) \<noteq> ''pending'')
        \<and> (f_id (files db ! i) \<notin> set (call_ids c) \<longrightarrow> files (step c db) ! i = files db ! i))"
  using bound_ids_subset
  by (cases c) (auto simp: files_approve files_reject length_update_where nth_update_where)

lemma files_add_file:
  "files (fst (add_file fk now n p a db)) = files db
   \<or> (\<exists>r. files (fst (add_file fk now n p a db)) = files db @ [r]
          \<and> status r = ''pending'' \<and> approved_at r = None)"
  by (simp add: add_file_def split: option.splits)


section \<open>Facts about the listing\<close>


lemma strip_Nil: "strip [] = []"
  by (simp add: strip_def)

lemma strip_spaces:
  assumes "\<forall>c \<in> set s. isspace c"
  shows "strip s = []"
proof -
  have d: "dropWhile isspace s = []"
    using assms by (induction s) auto
  show ?thesis unfolding strip_def d by simp
qed

lemma files_preview_None:
  "files_preview contains None db =
     (case file_list db (filter (\<lambda>f. status f = ''pending'') (files db)) of
        None \<Rightarrow> Inl (Reply ''error'' ''Internal server error'' 500)
      | Some vs \<Rightarrow> Inr vs)"
  by (simp add: files_preview_def strip_Nil)

lemma files_preview_Some:
  "files_preview contains (Some s) db =
     (case file_list db (filter (\<lambda>f. status f = ''pending'' \<and>
              (strip s = [] \<or> contains (filename f) (strip s) \<or> contains (path f) (strip s))) (files db)) of
        None \<Rightarrow> Inl (Reply ''error'' ''Internal server error'' 500)
      | Some vs \<Rightarrow> Inr vs)"
proof (cases "strip s = []")
  case True
  then show ?thesis by (simp add: files_preview_def)
next
  case False
  have "filter (\<lambda>f. contains (filename f) (strip s) \<or> contains (path f) (strip s))
          (filter (\<lambda>f. status f = ''pending'') (files db))
        = filter (\<lambda>f. status f = ''pending'' \<and>
              (strip s = [] \<or> contains (filename f) (strip s) \<or> contains (path f) (strip s))) (files db)"
    using False by (simp add: conj_commute)
  then show ?thesis using False by (simp add: files_preview_def Let_def)
qed


section \<open>Facts about the operator of the store\<close>





section \<open>Approving\<close>




section \<open>Histories of approvals and rejections\<close>

text \<open>
  Claim C2, as the code has it. Along any sequence of approve and reject calls the table
  keeps its rows and their ids; a row whose status is not pending never becomes pending
  again; and a row that no call of the sequence names by its id stays exactly as it was.
  (A call that names the row does overwrite it: approved and rejected are not absorbing
  one by one.)
\<close>

theorem non_pending_stays_non_pending:
  "length (files (run calls db)) = length (files db)
   \<and> (\<forall>i < length (files db).
        f_id (files (run calls db) ! i) = f_id (files db ! i)
        \<and> (status (files db ! i) \<noteq> ''pending'' \<longrightarrow> status (files (run calls db) ! i) \<noteq> ''pending'')
        \<and> ((\<forall>c \<in> set calls. f_id (files db ! i) \<notin> set (call_ids c))
              \<longrightarrow> files (run calls db) ! i = files db ! i))"
proof (induction calls arbitrary: db)
  case Nil
  show ?case by (simp add: run_def)
next
  case (Cons c calls)
  have r: "run (c # calls) db = run calls (step c db)"
    by (simp add: run_def)
  note s = step_files [of c db]
  note ih = Cons.IH [of "step c db"]
  show ?case
    unfolding r using s ih by auto
qed

theorem non_pending_stays_non_pending_witness:
  "status (files (fst (reject_deletion (ids_body [1]) (mock_db 0))) ! 0) \<noteq> ''pending''
   \<and> status (files (run [Approve 5 (ids_body [1, 2]), Reject (ids_body [1]), Approve 8 (ids_body [])]
        (fst (reject_deletion (ids_body [1]) (mock_db 0)))) ! 0) \<noteq> ''pending''
   \<and> files (run [Approve 5 (ids_body [1, 2]), Reject (ids_body [1]), Approve 8 (ids_body [])]
        (fst (reject_deletion (ids_body [1]) (mock_db 0)))) ! 3
      = files (fst (reject_deletion (ids_body [1]) (mock_db 0))) ! 3"
  using non_pending_stays_non_pending
    [of "[Approve 5 (ids_body [1, 2]), Reject (ids_body [1]), Approve 8 (ids_body [])]"
        "fst (reject_deletion (ids_body [1]) (mock_db 0))"]
  by (simp add: files_reject bound_ids_def int64_def body_ids_ids_body update_where_def mock_db_def)

text \<open>
  Claim C2 as stated makes approved absorbing. On the seeded store, row 2 is approved
  at time 5; rejecting id 2 afterwards changes its status to rejected.
\<close>

theorem approved_then_rejected_counterexample:
  "status (files (fst (approve_deletion 5 (ids_body [2]) (mock_db 0))) ! 1) = ''approved''
   \<and> f_id (files (fst (approve_deletion 5 (ids_body [2]) (mock_db 0))) ! 1) = 2
   \<and> status (files (fst (reject_deletion (ids_body [2])
               (fst (approve_deletion 5 (ids_body [2]) (mock_db 0))))) ! 1) = ''rejected''"
  by (simp add: files_approve files_reject bound_ids_def int64_def body_ids_ids_body
      update_where_def mock_db_def)

section \<open>The count in the answer\<close>




section \<open>Status and approval time\<close>

text \<open>
  Claim C4, as the code has it. That every approved row has an approval time is kept by
  approving, by rejecting and by creating a row. The converse, that every row with an
  approval time is approved, is kept by approving and by creating a row; rejecting is
  not among them.
\<close>

theorem approved_have_time_preserved:
  "(approved_have_time db \<longrightarrow>
      approved_have_time (fst (approve_deletion now data db))
      \<and> approved_have_time (fst (reject_deletion data db))
      \<and> approved_have_time (fst (add_file foreign_keys now fname fpath aid db)))
   \<and> (timed_are_approved db \<longrightarrow>
      timed_are_approved (fst (approve_deletion now data db))
      \<and> timed_are_approved (fst (add_file foreign_keys now fname fpath aid db)))"
proof -
  have a1: "approved_have_time (fst (approve_deletion now data db))" if "approved_have_time db"
    using that by (auto simp: approved_have_time_def files_approve update_where_def)
  have a2: "approved_have_time (fst (reject_deletion data db))" if "approved_have_time db"
    using that by (auto simp: approved_have_time_def files_reject update_where_def)
  have a3: "approved_have_time (fst (add_file foreign_keys now fname fpath aid db))"
    if "approved_have_time db"
    using that files_add_file [of foreign_keys now fname fpath aid db]
    by (auto simp: approved_have_time_def)
  have b1: "timed_are_approved (fst (approve_deletion now data db))" if "timed_are_approved db"
    using that by (auto simp: timed_are_approved_def files_approve update_where_def)
  have b3: "timed_are_approved (fst (add_file foreign_keys now fname fpath aid db))"
    if "timed_are_approved db"
    using that files_add_file [of foreign_keys now fname fpath aid db]
    by (auto simp: timed_are_approved_def)
  show ?thesis using a1 a2 a3 b1 b3 by blast
qed

theorem approved_have_time_preserved_witness:
  "approved_have_time (mock_db 0) \<and> timed_are_approved (mock_db 0)
   \<and> approved_have_time (fst (approve_deletion 5 (ids_body [1]) (mock_db 0)))
   \<and> approved_have_time (fst (reject_deletion (ids_body [1]) (mock_db 0)))
   \<and> approved_have_time (fst (add_file True 5 (Some ''a.txt'') (Some ''/x/a.txt'') (Some 1) (mock_db 0)))
   \<and> timed_are_approved (fst (approve_deletion 5 (ids_body [1]) (mock_db 0)))
   \<and> timed_are_approved (fst (add_file True 5 (Some ''a.txt'') (Some ''/x/a.txt'') (Some 1) (mock_db 0)))"
proof -
  have h: "approved_have_time (mock_db 0)" "timed_are_approved (mock_db 0)"
    by (simp_all add: approved_have_time_def timed_are_approved_def mock_db_def)
  show ?thesis
    using h approved_have_time_preserved
      [of "mock_db 0" 5 "ids_body [1]" True "Some ''a.txt''" "Some ''/x/a.txt''" "Some 1"]
    by simp
qed

text \<open>
  Claim C4 as stated has \<^verbatim>\<open>approved_at\<close> null on every row that is not approved. On the
  seeded store, row 1 is approved at time 5 and then rejected: it is rejected and still
  carries the approval time 5.
\<close>

theorem reject_keeps_approved_at_counterexample:
  "status (files (fst (approve_deletion 5 (ids_body [1]) (mock_db 0))) ! 0) = ''approved''
   \<and> approved_at (files (fst (approve_deletion 5 (ids_body [1]) (mock_db 0))) ! 0) = Some 5
   \<and> status (files (fst (reject_deletion (ids_body [1])
               (fst (approve_deletion 5 (ids_body [1]) (mock_db 0))))) ! 0) = ''rejected''
   \<and> approved_at (files (fst (reject_deletion (ids_body [1])
               (fst (approve_deletion 5 (ids_body [1]) (mock_db 0))))) ! 0) = Some 5"
  by (simp add: files_approve files_reject bound_ids_def int64_def body_ids_ids_body
      update_where_def mock_db_def)

section \<open>Listing the pending files\<close>




text \<open>
  Claim C10. A search text made of whitespace only is treated as no search text: for
  every store, \<open>files_preview\<close> gives the same answer for both, and that answer is built
  from exactly the pending rows.
\<close>

theorem whitespace_search_is_no_search:
  assumes "\<forall>c \<in> set s. isspace c"
  shows "files_preview contains (Some s) db = files_preview contains None db
    \<and> files_preview contains None db =
        (case file_list db (filter (\<lambda>f. status f = ''pending'') (files db)) of
           None \<Rightarrow> Inl (Reply ''error'' ''Internal server error'' 500)
         | Some vs \<Rightarrow> Inr vs)"
  using strip_spaces [OF assms] by (simp add: files_preview_Some files_preview_None)

theorem whitespace_search_is_no_search_witness:
  "files_preview substring (Some [CHR '' '', CHR 0x09, CHR '' '']) (mock_db 0)
     = files_preview substring None (mock_db 0)"
proof -
  have h: "\<forall>c \<in> set [CHR '' '', CHR 0x09, CHR '' '']. isspace c"
    by (simp add: isspace_def)
  show ?thesis
    using whitespace_search_is_no_search [OF h, of substring "mock_db 0"] by simp
qed

section \<open>Refused requests\<close>

text \<open>
  Claim C7. When \<^verbatim>\<open>file_ids\<close> is the empty list, \<open>approve_deletion\<close> and
  \<open>reject_deletion\<close> answer with the error \<^verbatim>\<open>file_ids must be a non-empty list\<close> and
  status 400, and the store is the one they were given.
\<close>

theorem empty_file_ids_refused:
  assumes "d ''file_ids'' = Some (JIds [])"
  shows "approve_deletion now (Some d) db = (db, Reply ''error'' ''file_ids must be a non-empty list'' 400)
    \<and> reject_deletion (Some d) db = (db, Reply ''error'' ''file_ids must be a non-empty list'' 400)"
  using assms by (simp add: approve_deletion_def reject_deletion_def)

theorem empty_file_ids_refused_witness:
  "approve_deletion 9 (ids_body []) (mock_db 0) =
     (mock_db 0, Reply ''error'' ''file_ids must be a non-empty list'' 400)
   \<and> reject_deletion (ids_body []) (mock_db 0) =
     (mock_db 0, Reply ''error'' ''file_ids must be a non-empty list'' 400)"
  using empty_file_ids_refused [of "[''file_ids'' \<mapsto> JIds []]" 9 "mock_db 0"]
  by (simp add: ids_body_def)

section \<open>Rejecting\<close>

text \<open>
  Claim C8. For every request and store, \<open>reject_deletion\<close> keeps the table's length and
  the agents; a row whose id the request names differs from the row before in
  \<^verbatim>\<open>status\<close> at most, so its id, filename, path, agent id, creation time and approval
  time are those of before; a row whose id the request does not name is the row of
  before. The named rows are rejected afterwards when every id of the request lies in
  the signed 64-bit range, and no row is changed otherwise.
\<close>

theorem reject_changes_status_only:
  "length (files (fst (reject_deletion data db))) = length (files db)
   \<and> agents (fst (reject_deletion data db)) = agents db
   \<and> (\<forall>i < length (files db).
        files (fst (reject_deletion data db)) ! i =
          (if f_id (files db ! i) \<in> set (body_ids data) \<and> list_all int64 (body_ids data)
           then (files db ! i)\<lparr>status := ''rejected''\<rparr> else files db ! i)
        \<and> f_id (files (fst (reject_deletion data db)) ! i) = f_id (files db ! i)
        \<and> filename (files (fst (reject_deletion data db)) ! i) = filename (files db ! i)
        \<and> path (files (fst (reject_deletion data db)) ! i) = path (files db ! i)
        \<and> agent_id (files (fst (reject_deletion data db)) ! i) = agent_id (files db ! i)
        \<and> created_at (files (fst (reject_deletion data db)) ! i) = created_at (files db ! i)
        \<and> approved_at (files (fst (reject_deletion data db)) ! i) = approved_at (files db ! i))"
  by (simp add: files_reject agents_reject length_update_where nth_update_where bound_ids_def)

theorem reject_changes_status_only_witness:
  "files (fst (reject_deletion (ids_body [1]) (fst (approve_deletion 5 (ids_body [1, 2]) (mock_db 0))))) ! 0
     = (files (fst (approve_deletion 5 (ids_body [1, 2]) (mock_db 0))) ! 0)\<lparr>status := ''rejected''\<rparr>
   \<and> approved_at (files (fst (reject_deletion (ids_body [1])
        (fst (approve_deletion 5 (ids_body [1, 2]) (mock_db 0))))) ! 0) = Some 5
   \<and> files (fst (reject_deletion (ids_body [1]) (fst (approve_deletion 5 (ids_body [1, 2]) (mock_db 0))))) ! 1
     = files (fst (approve_deletion 5 (ids_body [1, 2]) (mock_db 0))) ! 1"
  using reject_changes_status_only [of "ids_body [1]" "fst (approve_deletion 5 (ids_body [1, 2]) (mock_db 0))"]
  by (simp add: files_approve bound_ids_def int64_def body_ids_ids_body update_where_def mock_db_def)

section \<open>The timestamp of a batch\<close>

text \<open>
  Claim C9. In one call of \<open>approve_deletion\<close> all rows that the call updates get the same
  \<^verbatim>\<open>approved_at\<close>: any two rows that the call changes carry the clock reading of the call
  afterwards, and so do any two rows whose ids are in the list when every id of the list
  lies in the signed 64-bit range.
\<close>

theorem approve_one_timestamp:
  assumes "d ''file_ids'' = Some (JIds file_ids)" and "file_ids \<noteq> []"
    and "i < length (files db)" and "j < length (files db)"
  shows "(list_all int64 file_ids \<longrightarrow>
       f_id (files db ! i) \<in> set file_ids \<longrightarrow> f_id (files db ! j) \<in> set file_ids \<longrightarrow>
         approved_at (files (fst (approve_deletion now (Some d) db)) ! i) = Some now
         \<and> approved_at (files (fst (approve_deletion now (Some d) db)) ! j) = Some now
         \<and> approved_at (files (fst (approve_deletion now (Some d) db)) ! i) =
            approved_at (files (fst (approve_deletion now (Some d) db)) ! j))
    \<and> (files (fst (approve_deletion now (Some d) db)) ! i \<noteq> files db ! i \<longrightarrow>
       files (fst (approve_deletion now (Some d) db)) ! j \<noteq> files db ! j \<longrightarrow>
         approved_at (files (fst (approve_deletion now (Some d) db)) ! i) = Some now
         \<and> approved_at (files (fst (approve_deletion now (Some d) db)) ! j) = Some now
         \<and> approved_at (files (fst (approve_deletion now (Some d) db)) ! i) =
            approved_at (files (fst (approve_deletion now (Some d) db)) ! j))"
  using assms
  by (simp add: files_approve nth_update_where bound_ids_def body_ids_list)

theorem approve_one_timestamp_witness:
  "approved_at (files (fst (approve_deletion 7 (ids_body [1, 3]) (mock_db 0))) ! 0) = Some 7
   \<and> approved_at (files (fst (approve_deletion 7 (ids_body [1, 3]) (mock_db 0))) ! 2) = Some 7"
  using approve_one_timestamp [of "[''file_ids'' \<mapsto> JIds [1, 3]]" "[1, 3]" 0 "mock_db 0" 2 7]
  by (simp add: ids_body_def int64_def mock_db_def)

end
